theory Spec2Isabelle
  imports Complex_Main "HOL-Library.Multiset" "HOL-Library.Product_Lexorder"
begin

section \<open>Data model (types/queue.ts)\<close>

text \<open>
  The string-literal unions of the source are datatypes.  JavaScript numbers are modelled
  exactly: timestamps, ages, counters, scan counts, trust scores and escalation levels as
  \<open>int\<close>, the priority score as \<open>rat\<close>.  The escalation level is declared
  \<open>0 | 1 | 2\<close> in the source; the declaration is erased when the program runs, so the
  field is an \<open>int\<close> here and the declared range is the predicate \<open>validLevel\<close>.
\<close>

datatype PatientStatus = Waiting | Called | Consultation | Emergency | Completed

datatype SymptomSeverity = Mild | Moderate | Severe

datatype VisitType = Routine | Followup | Referral

datatype Department = General_medicine | Pediatrics | Orthopedics | Gynecology

datatype PrescriptionStatus = Pending | Verified | Forwarded | Dispensed

datatype ReceiptStatus = Active | Fulfilled | Invalid

record VulnerabilityFlags =
  elderly :: bool
  pregnant :: bool
  disabled :: bool
  chronicCondition :: bool

record Patient =
  p_id :: string
  p_tokenNumber :: string
  p_name :: string
  age :: int
  p_department :: Department
  symptom :: string
  symptomSeverity :: SymptomSeverity
  vulnerabilities :: VulnerabilityFlags
  p_visitType :: VisitType
  p_status :: PatientStatus
  arrivalTime :: int
  escalationLevel :: int
  isEmergency :: bool
  isLateArrival :: bool
  trustScore :: int
  p_receiptId :: "string option"
  consultationEndTime :: "int option"
  p_diagnosis :: "string option"
  p_prescriptionId :: "string option"

record PrescriptionMedicine =
  m_name :: string
  dosage :: string
  frequency :: string
  duration :: string
  instructions :: string

record Prescription =
  rx_id :: string
  rx_patientId :: string
  rx_patientName :: string
  rx_tokenNumber :: string
  rx_department :: Department
  doctorDepartment :: string
  rx_diagnosis :: string
  medicines :: "PrescriptionMedicine list"
  rx_status :: PrescriptionStatus
  aiGenerated :: bool
  doctorVerified :: bool
  rx_createdAt :: int
  forwardedAt :: "int option"
  dispensedAt :: "int option"

record VisitReceipt =
  r_id :: string
  r_patientId :: string
  r_patientName :: string
  r_tokenNumber :: string
  r_department :: Department
  visitDate :: int
  doctorRole :: string
  r_visitType :: VisitType
  r_diagnosis :: "string option"
  r_prescriptionId :: "string option"
  prescriptionStatus :: "PrescriptionStatus option"
  r_status :: ReceiptStatus
  scanCount :: int
  r_createdAt :: int

record QueueState =
  patients :: "Patient list"
  prescriptions :: "Prescription list"
  receipts :: "VisitReceipt list"
  tokenCounters :: "Department \<Rightarrow> int"
  isOffline :: bool
  pendingSync :: bool

definition validLevel :: "int \<Rightarrow> bool" where
  "validLevel l = (l = 0 \<or> l = 1 \<or> l = 2)"

section \<open>Priority engine (lib/priority-engine)\<close>

subsection \<open>calculatePriorityScore\<close>

definition SEVERITY_CAP :: "SymptomSeverity \<Rightarrow> rat" where
  "SEVERITY_CAP s = (case s of Mild \<Rightarrow> 10 | Moderate \<Rightarrow> 25 | Severe \<Rightarrow> 40)"

definition VISIT_TYPE :: "VisitType \<Rightarrow> rat" where
  "VISIT_TYPE v = (case v of Routine \<Rightarrow> 0 | Followup \<Rightarrow> 5 | Referral \<Rightarrow> 10)"

text \<open>
  \<open>WEIGHTS.ESCALATION[level]\<close> is a table with the keys 0, 1 and 2.  Any other key
  reads \<open>undefined\<close>, which turns the whole score into NaN: that is \<open>None\<close>.
\<close>

definition ESCALATION :: "int \<Rightarrow> rat option" where
  "ESCALATION l =
     (if l = 0 then Some 0 else if l = 1 then Some 10 else if l = 2 then Some 25 else None)"

definition ageTerm :: "int \<Rightarrow> rat" where
  "ageTerm a = (if a \<ge> 60 then 15 else if a \<le> 5 then 12 else 0)"

definition vulnerabilityTerm :: "VulnerabilityFlags \<Rightarrow> rat" where
  "vulnerabilityTerm v =
     (if elderly v then 15 else 0) + (if pregnant v then 20 else 0) +
     (if disabled v then 15 else 0) + (if chronicCondition v then 10 else 0)"

definition waitBonus :: "int \<Rightarrow> Patient \<Rightarrow> rat" where
  "waitBonus now p = min ((of_int (now - arrivalTime p) / (1000 * 60)) * (1 / 2)) 50"

text \<open>The clock reading \<open>now\<close> stands for \<open>Date.now()\<close>.\<close>

definition calculatePriorityScore :: "int \<Rightarrow> Patient \<Rightarrow> rat option" where
  "calculatePriorityScore now p =
     (case ESCALATION (escalationLevel p) of
        None \<Rightarrow> None
      | Some esc \<Rightarrow>
          Some (max 0
            (SEVERITY_CAP (symptomSeverity p) + ageTerm (age p)
             + vulnerabilityTerm (vulnerabilities p)
             + waitBonus now p
             + of_int (trustScore p) * (1 / 10)
             + esc
             + VISIT_TYPE (p_visitType p)
             - (if isLateArrival p then 15 else 0))))"

subsection \<open>The comparator of sortQueueByPriority\<close>

text \<open>
  The comparison function handed to \<open>Array.prototype.sort\<close>, branch by branch.  A
  negative result puts \<open>a\<close> first, a positive one \<open>b\<close>.  When a score is NaN the
  test \<open>scoreB !== scoreA\<close> succeeds and the difference returned is NaN, which
  \<open>sort\<close> reads as 0.
\<close>

definition compareQueue :: "int \<Rightarrow> Patient \<Rightarrow> Patient \<Rightarrow> rat" where
  "compareQueue now a b =
     (if p_status a = Called \<and> p_status b \<noteq> Called then -1
      else if p_status b = Called \<and> p_status a \<noteq> Called then 1
      else if p_status a = Consultation \<and> p_status b \<noteq> Consultation then -1
      else if p_status b = Consultation \<and> p_status a \<noteq> Consultation then 1
      else if isEmergency a \<and> \<not> isEmergency b then -1
      else if isEmergency b \<and> \<not> isEmergency a then 1
      else (case (calculatePriorityScore now a, calculatePriorityScore now b) of
              (Some scoreA, Some scoreB) \<Rightarrow>
                 if scoreB \<noteq> scoreA then scoreB - scoreA
                 else of_int (arrivalTime a - arrivalTime b)
            | _ \<Rightarrow> 0))"

subsection \<open>Array.prototype.sort\<close>

text \<open>
  \<open>sort\<close> is stable, and for a consistent comparison function its result is the one
  stable sorted arrangement of the array, whichever algorithm the engine runs.  The model
  computes that arrangement by insertion from the right: an element goes in front of the
  first element it does not have to follow.
\<close>

fun array_insert :: "('a \<Rightarrow> 'a \<Rightarrow> rat) \<Rightarrow> 'a \<Rightarrow> 'a list \<Rightarrow> 'a list" where
  "array_insert cmp x [] = [x]"
| "array_insert cmp x (y # ys) =
     (if cmp x y \<le> 0 then x # y # ys else y # array_insert cmp x ys)"

definition array_sort :: "('a \<Rightarrow> 'a \<Rightarrow> rat) \<Rightarrow> 'a list \<Rightarrow> 'a list" where
  "array_sort cmp xs = foldr (array_insert cmp) xs []"

subsection \<open>sortQueueByPriority\<close>

definition sortQueueByPriority :: "int \<Rightarrow> Patient list \<Rightarrow> Department option \<Rightarrow> Patient list" where
  "sortQueueByPriority now ps department =
     (let filtered = (case department of
                        Some d \<Rightarrow> filter (\<lambda>p. p_department p = d) ps
                      | None \<Rightarrow> ps);
          active = filter (\<lambda>p. p_status p \<noteq> Completed) filtered;
          completed = filter (\<lambda>p. p_status p = Completed) filtered;
          sorted = array_sort (compareQueue now) active
      in sorted @ completed)"

subsection \<open>generateTokenNumber\<close>

definition prefixes :: "Department \<Rightarrow> string" where
  "prefixes d = (case d of General_medicine \<Rightarrow> ''GM'' | Pediatrics \<Rightarrow> ''PD''
                 | Orthopedics \<Rightarrow> ''OR'' | Gynecology \<Rightarrow> ''GY'')"

definition digitChar :: "nat \<Rightarrow> char" where
  "digitChar d = ''0123456789'' ! d"

text \<open>\<open>String(counter)\<close> for an integer: its decimal digits, after a minus sign if negative.\<close>

function decString :: "nat \<Rightarrow> string" where
  "decString n = (if n < 10 then [digitChar n] else decString (n div 10) @ [digitChar (n mod 10)])"
  by pat_completeness auto
termination
  by (relation "measure (\<lambda>n. n)") auto

declare decString.simps [simp del]

definition numberToString :: "int \<Rightarrow> string" where
  "numberToString i = (if i < 0 then CHR ''-'' # decString (nat (- i)) else decString (nat i))"

definition padStart :: "nat \<Rightarrow> char \<Rightarrow> string \<Rightarrow> string" where
  "padStart n c s = replicate (n - length s) c @ s"

definition generateTokenNumber :: "Department \<Rightarrow> int \<Rightarrow> string" where
  "generateTokenNumber department counter =
     prefixes department @ ''-'' @ padStart 3 (CHR ''0'') (numberToString counter)"

section \<open>The environment of an operation\<close>

text \<open>
  What an operation reads from outside the queue state: the clock (\<open>Date.now()\<close>, read
  once per operation), the identifier \<open>uuidv4()\<close> returns, the value
  \<open>generateTrustScore()\<close> draws, and whether the record store carries out the writes
  the operation sends it (\<open>store_ok\<close>; the store itself is not part of the state).
\<close>

record Env =
  clock :: int
  uuid :: string
  random_trust :: int
  store_ok :: bool

text \<open>
  The messages shown to the caller (\<open>toast.success\<close>, \<open>toast.info\<close>, \<open>toast.error\<close>,
  \<open>toast.warning\<close>), one constructor per message of the source.  \<open>Failed\<close> carries
  the words after "Failed to".
\<close>

datatype Toast =
    Patient_registered string
  | Emergency_marked
  | Emergency_resolved
  | Marked_late_arrival
  | Priority_escalated int
  | No_patients_waiting
  | Calling string string
  | Consultation_started
  | Consultation_completed
  | Patient_removed
  | Patient_transferred string
  | Prescription_verified
  | Prescription_forwarded
  | Medicines_dispensed
  | Fraud_alert
  | Failed string

definition initialState :: QueueState where
  "initialState = \<lparr> patients = [], prescriptions = [], receipts = [],
                     tokenCounters = (\<lambda>d. 0), isOffline = False, pendingSync = False \<rparr>"

definition departmentName :: "Department \<Rightarrow> string" where
  "departmentName d = (case d of General_medicine \<Rightarrow> ''General Medicine''
                       | Pediatrics \<Rightarrow> ''Pediatrics'' | Orthopedics \<Rightarrow> ''Orthopedics''
                       | Gynecology \<Rightarrow> ''Gynecology'')"

text \<open>\<open>a || b\<close> on optional strings: the empty string counts as absent.\<close>

definition js_or :: "string option \<Rightarrow> string option \<Rightarrow> string option" where
  "js_or a b = (case a of Some s \<Rightarrow> if s = [] then b else Some s | None \<Rightarrow> b)"

text \<open>The receipt built by completeConsultation, the same in both providers.\<close>

definition newReceipt :: "Env \<Rightarrow> QueueState \<Rightarrow> Patient \<Rightarrow> string option \<Rightarrow> VisitReceipt" where
  "newReceipt env state patient diagnosis =
     \<lparr> r_id = uuid env,
       r_patientId = p_id patient,
       r_patientName = p_name patient,
       r_tokenNumber = p_tokenNumber patient,
       r_department = p_department patient,
       visitDate = clock env,
       doctorRole = departmentName (p_department patient) @ '' Physician'',
       r_visitType = p_visitType patient,
       r_diagnosis = js_or diagnosis (p_diagnosis patient),
       r_prescriptionId = p_prescriptionId patient,
       prescriptionStatus =
         (case p_prescriptionId patient of
            None \<Rightarrow> None
          | Some pid \<Rightarrow> if pid = [] then None
                        else map_option rx_status (find (\<lambda>p. rx_id p = pid) (prescriptions state))),
       r_status = Active,
       scanCount = 0,
       r_createdAt = clock env \<rparr>"

section \<open>The store-backed provider (unnamed/part\_004)\<close>

subsection \<open>queueReducer\<close>

datatype QueueAction =
    REGISTER_PATIENT Patient
  | UPDATE_PATIENT Patient
  | REMOVE_PATIENT string
  | ADD_PRESCRIPTION Prescription
  | UPDATE_PRESCRIPTION Prescription
  | ADD_RECEIPT VisitReceipt
  | UPDATE_RECEIPT VisitReceipt
  | SET_TOKEN_COUNTER Department int
  | SET_OFFLINE bool
  | LOAD_STATE QueueState

fun queueReducer :: "int \<Rightarrow> QueueState \<Rightarrow> QueueAction \<Rightarrow> QueueState" where
  "queueReducer now state (REGISTER_PATIENT payload) =
     state\<lparr>patients := sortQueueByPriority now (patients state @ [payload]) None\<rparr>"
| "queueReducer now state (UPDATE_PATIENT patient) =
     state\<lparr>patients := sortQueueByPriority now
        (map (\<lambda>p. if p_id p = p_id patient then patient else p) (patients state)) None\<rparr>"
| "queueReducer now state (REMOVE_PATIENT patientId) =
     state\<lparr>patients := filter (\<lambda>p. p_id p \<noteq> patientId) (patients state)\<rparr>"
| "queueReducer now state (ADD_PRESCRIPTION prescription) =
     state\<lparr>prescriptions := prescriptions state @ [prescription]\<rparr>"
| "queueReducer now state (UPDATE_PRESCRIPTION prescription) =
     state\<lparr>prescriptions :=
        map (\<lambda>p. if rx_id p = rx_id prescription then prescription else p) (prescriptions state)\<rparr>"
| "queueReducer now state (ADD_RECEIPT receipt) =
     state\<lparr>receipts := receipts state @ [receipt]\<rparr>"
| "queueReducer now state (UPDATE_RECEIPT receipt) =
     state\<lparr>receipts :=
        map (\<lambda>r. if r_id r = r_id receipt then receipt else r) (receipts state)\<rparr>"
| "queueReducer now state (SET_TOKEN_COUNTER department counter) =
     state\<lparr>tokenCounters := (tokenCounters state)(department := counter)\<rparr>"
| "queueReducer now state (SET_OFFLINE offline) = state\<lparr>isOffline := offline\<rparr>"
| "queueReducer now state (LOAD_STATE s) = s"

subsection \<open>The operations\<close>

text \<open>
  Each operation returns the messages it shows and the state after its dispatches; an
  operation with a result returns that too.  A write the store refuses raises inside the
  \<open>try\<close> block, before any dispatch.
\<close>

definition registerPatient :: "Env \<Rightarrow> Patient \<Rightarrow> QueueState \<Rightarrow> string option \<times> Toast list \<times> QueueState" where
  "registerPatient env patientData state =
     (let department = p_department patientData;
          newCounter = tokenCounters state department + 1;
          tokenNumber = generateTokenNumber department newCounter;
          newPatient = patientData\<lparr> p_id := uuid env, p_tokenNumber := tokenNumber,
                         p_status := Waiting, arrivalTime := clock env, escalationLevel := 0,
                         isEmergency := False, isLateArrival := False,
                         trustScore := random_trust env \<rparr>
      in if store_ok env
         then (Some (p_id newPatient), [Patient_registered tokenNumber],
               queueReducer (clock env)
                 (queueReducer (clock env) state (SET_TOKEN_COUNTER department newCounter))
                 (REGISTER_PATIENT newPatient))
         else (None, [Failed ''register patient''], state))"

text \<open>
  updateStatus, markEmergency, resolveEmergency, markLateArrival, escalate and
  startConsultation share one shape: find the patient, build the updated copy, write it to
  the store, dispatch UPDATE\_PATIENT, show a message.
\<close>

definition updatePatientWith ::
  "Env \<Rightarrow> string \<Rightarrow> (Patient \<Rightarrow> Patient) \<Rightarrow> Toast list \<Rightarrow> Toast \<Rightarrow> QueueState \<Rightarrow> Toast list \<times> QueueState" where
  "updatePatientWith env patientId change done failed state =
     (case find (\<lambda>p. p_id p = patientId) (patients state) of
        None \<Rightarrow> ([], state)
      | Some patient \<Rightarrow>
          if store_ok env
          then (done, queueReducer (clock env) state (UPDATE_PATIENT (change patient)))
          else ([failed], state))"





definition escalate :: "Env \<Rightarrow> string \<Rightarrow> int \<Rightarrow> QueueState \<Rightarrow> Toast list \<times> QueueState" where
  "escalate env patientId level state =
     updatePatientWith env patientId (\<lambda>patient. patient\<lparr>escalationLevel := level\<rparr>)
       [Priority_escalated level] (Failed ''escalate priority'') state"


definition callNext :: "Env \<Rightarrow> Department \<Rightarrow> QueueState \<Rightarrow> Toast list \<times> QueueState" where
  "callNext env department state =
     (let waiting = filter (\<lambda>p. p_department p = department \<and> p_status p = Waiting) (patients state)
      in if waiting = [] then ([No_patients_waiting], state)
         else case sortQueueByPriority (clock env) waiting (Some department) of
                [] \<Rightarrow> ([Failed ''call next patient''], state)
              | nextPatient # _ \<Rightarrow>
                  if store_ok env
                  then ([Calling (p_name nextPatient) (p_tokenNumber nextPatient)],
                        queueReducer (clock env) state
                          (UPDATE_PATIENT (nextPatient\<lparr>p_status := Called\<rparr>)))
                  else ([Failed ''call next patient''], state))"

definition completeConsultation :: "Env \<Rightarrow> string \<Rightarrow> string option \<Rightarrow> QueueState \<Rightarrow> Toast list \<times> QueueState" where
  "completeConsultation env patientId diagnosis state =
     (case find (\<lambda>p. p_id p = patientId) (patients state) of
        None \<Rightarrow> ([], state)
      | Some patient \<Rightarrow>
          let receipt = newReceipt env state patient diagnosis;
              updatedPatient = patient\<lparr> p_status := Completed, p_receiptId := Some (uuid env),
                                 p_diagnosis := js_or diagnosis (p_diagnosis patient),
                                 consultationEndTime := Some (clock env) \<rparr>
          in if store_ok env
             then ([Consultation_completed],
                   queueReducer (clock env)
                     (queueReducer (clock env) state (UPDATE_PATIENT updatedPatient))
                     (ADD_RECEIPT receipt))
             else ([Failed ''complete consultation''], state))"

definition removePatient :: "Env \<Rightarrow> string \<Rightarrow> QueueState \<Rightarrow> Toast list \<times> QueueState" where
  "removePatient env patientId state =
     (if store_ok env
      then ([Patient_removed], queueReducer (clock env) state (REMOVE_PATIENT patientId))
      else ([Failed ''remove patient''], state))"

definition transferDepartment :: "Env \<Rightarrow> string \<Rightarrow> Department \<Rightarrow> QueueState \<Rightarrow> Toast list \<times> QueueState" where
  "transferDepartment env patientId newDepartment state =
     (case find (\<lambda>p. p_id p = patientId) (patients state) of
        None \<Rightarrow> ([], state)
      | Some patient \<Rightarrow>
          let newCounter = tokenCounters state newDepartment + 1;
              newToken = generateTokenNumber newDepartment newCounter;
              updatedPatient = patient\<lparr>p_department := newDepartment, p_tokenNumber := newToken\<rparr>
          in if store_ok env
             then ([Patient_transferred (departmentName newDepartment)],
                   queueReducer (clock env)
                     (queueReducer (clock env) state (SET_TOKEN_COUNTER newDepartment newCounter))
                     (UPDATE_PATIENT updatedPatient))
             else ([Failed ''transfer department''], state))"

text \<open>
  createPrescription takes every field of the prescription but \<open>id\<close> and
  \<open>createdAt\<close> from its caller, the status and the doctor-verified flag among them.
\<close>

definition createPrescription :: "Env \<Rightarrow> Prescription \<Rightarrow> QueueState \<Rightarrow> string option \<times> Toast list \<times> QueueState" where
  "createPrescription env prescriptionData state =
     (let prescription = prescriptionData\<lparr>rx_id := uuid env, rx_createdAt := clock env\<rparr>
      in if store_ok env
         then (let s1 = queueReducer (clock env) state (ADD_PRESCRIPTION prescription)
               in (Some (uuid env), [],
                   (case find (\<lambda>p. p_id p = rx_patientId prescription) (patients state) of
                      None \<Rightarrow> s1
                    | Some patient \<Rightarrow>
                        queueReducer (clock env) s1
                          (UPDATE_PATIENT (patient\<lparr> p_prescriptionId := Some (uuid env),
                                             p_diagnosis := Some (rx_diagnosis prescription) \<rparr>)))))
         else (None, [Failed ''create prescription''], state))"

definition updatePrescriptionWith ::
  "Env \<Rightarrow> string \<Rightarrow> (Prescription \<Rightarrow> Prescription) \<Rightarrow> Toast \<Rightarrow> Toast \<Rightarrow> QueueState \<Rightarrow> Toast list \<times> QueueState" where
  "updatePrescriptionWith env prescriptionId change done failed state =
     (case find (\<lambda>p. rx_id p = prescriptionId) (prescriptions state) of
        None \<Rightarrow> ([], state)
      | Some prescription \<Rightarrow>
          if store_ok env
          then ([done], queueReducer (clock env) state (UPDATE_PRESCRIPTION (change prescription)))
          else ([failed], state))"

definition verifyPrescription :: "Env \<Rightarrow> string \<Rightarrow> QueueState \<Rightarrow> Toast list \<times> QueueState" where
  "verifyPrescription env prescriptionId state =
     updatePrescriptionWith env prescriptionId
       (\<lambda>prescription. prescription\<lparr>doctorVerified := True, rx_status := Verified\<rparr>)
       Prescription_verified (Failed ''verify prescription'') state"

definition forwardPrescription :: "Env \<Rightarrow> string \<Rightarrow> QueueState \<Rightarrow> Toast list \<times> QueueState" where
  "forwardPrescription env prescriptionId state =
     updatePrescriptionWith env prescriptionId
       (\<lambda>prescription. prescription\<lparr>rx_status := Forwarded, forwardedAt := Some (clock env)\<rparr>)
       Prescription_forwarded (Failed ''forward prescription'') state"

text \<open>
  dispenseMedicine dispatches UPDATE\_PRESCRIPTION and then one UPDATE\_RECEIPT for every
  receipt that points at the prescription.
\<close>

definition dispenseMedicine :: "Env \<Rightarrow> string \<Rightarrow> QueueState \<Rightarrow> Toast list \<times> QueueState" where
  "dispenseMedicine env prescriptionId state =
     (case find (\<lambda>p. rx_id p = prescriptionId) (prescriptions state) of
        None \<Rightarrow> ([], state)
      | Some prescription \<Rightarrow>
          let updatedPrescription = prescription\<lparr>rx_status := Dispensed, dispensedAt := Some (clock env)\<rparr>;
              updatedReceipts = map (\<lambda>r. if r_prescriptionId r = Some prescriptionId
                                           then r\<lparr>prescriptionStatus := Some Dispensed\<rparr> else r)
                                    (receipts state)
          in if store_ok env
             then ([Medicines_dispensed],
                   foldl (\<lambda>s r. queueReducer (clock env) s (UPDATE_RECEIPT r))
                     (queueReducer (clock env) state (UPDATE_PRESCRIPTION updatedPrescription))
                     (filter (\<lambda>r. r_prescriptionId r = Some prescriptionId) updatedReceipts))
             else ([Failed ''dispense medicine''], state))"


section \<open>The dispensing screen (pages/MedicineDashboard.tsx)\<close>

text \<open>
  handleSearch looks a prescription up by its token (getPrescriptionByToken) and selects it
  for dispensing only if it is forwarded; handleDispense calls dispenseMedicine on the
  selected prescription.  The argument \<open>token\<close> is the text the lookup compares with
  the stored tokens, that is the input after \<open>trim()\<close> and \<open>toUpperCase()\<close>.
\<close>

datatype SearchError = No_prescription_found | Already_dispensed | Not_forwarded_yet

definition handleSearch :: "QueueState \<Rightarrow> string \<Rightarrow> SearchError + Prescription" where
  "handleSearch state token =
     (case find (\<lambda>p. rx_tokenNumber p = token) (prescriptions state) of
        None \<Rightarrow> Inl No_prescription_found
      | Some prescription \<Rightarrow>
          if rx_status prescription = Dispensed then Inl Already_dispensed
          else if rx_status prescription \<noteq> Forwarded then Inl Not_forwarded_yet
          else Inr prescription)"

section \<open>The reducer-only provider (unnamed/part\_005)\<close>

text \<open>
  The second provider keeps no record store: every operation dispatches one action and the
  reducer does the work.  Its names carry the suffix \<open>_local\<close> (constructors the prefix
  \<open>L_\<close>) where they would clash with the first provider's.
\<close>

datatype QueueAction_local =
    L_REGISTER_PATIENT Patient
  | L_UPDATE_STATUS string PatientStatus
  | L_MARK_EMERGENCY string
  | L_RESOLVE_EMERGENCY string
  | L_MARK_LATE_ARRIVAL string
  | L_ESCALATE string int
  | L_CALL_NEXT Department
  | L_START_CONSULTATION string
  | L_COMPLETE_CONSULTATION string "string option"
  | L_REMOVE_PATIENT string
  | L_TRANSFER_DEPARTMENT string Department
  | L_CREATE_PRESCRIPTION Prescription
  | L_VERIFY_PRESCRIPTION string
  | L_FORWARD_PRESCRIPTION string
  | L_DISPENSE_MEDICINE string
  | L_SCAN_RECEIPT string
  | L_SET_OFFLINE bool
  | L_LOAD_STATE QueueState

definition mapPatient :: "Env \<Rightarrow> string \<Rightarrow> (Patient \<Rightarrow> Patient) \<Rightarrow> QueueState \<Rightarrow> QueueState" where
  "mapPatient env patientId change state =
     state\<lparr> patients := sortQueueByPriority (clock env)
                (map (\<lambda>p. if p_id p = patientId then change p else p) (patients state)) None,
            pendingSync := isOffline state \<rparr>"

definition mapPrescription :: "string \<Rightarrow> (Prescription \<Rightarrow> Prescription) \<Rightarrow> QueueState \<Rightarrow> QueueState" where
  "mapPrescription prescriptionId change state =
     state\<lparr> prescriptions := map (\<lambda>p. if rx_id p = prescriptionId then change p else p)
                                (prescriptions state),
            pendingSync := isOffline state \<rparr>"

fun queueReducer_local :: "Env \<Rightarrow> QueueState \<Rightarrow> QueueAction_local \<Rightarrow> QueueState" where
  "queueReducer_local env state (L_REGISTER_PATIENT payload) =
     (let department = p_department payload;
          newCounter = tokenCounters state department + 1;
          tokenNumber = generateTokenNumber department newCounter;
          newPatient = payload\<lparr> p_id := uuid env, p_tokenNumber := tokenNumber,
                         p_status := Waiting, arrivalTime := clock env, escalationLevel := 0,
                         isEmergency := False, isLateArrival := False,
                         trustScore := random_trust env \<rparr>
      in state\<lparr> patients := sortQueueByPriority (clock env) (patients state @ [newPatient]) None,
                tokenCounters := (tokenCounters state)(department := newCounter),
                pendingSync := isOffline state \<rparr>)"
| "queueReducer_local env state (L_UPDATE_STATUS patientId status) =
     mapPatient env patientId (\<lambda>p. p\<lparr>p_status := status\<rparr>) state"
| "queueReducer_local env state (L_MARK_EMERGENCY patientId) =
     mapPatient env patientId (\<lambda>p. p\<lparr>isEmergency := True, p_status := Emergency\<rparr>) state"
| "queueReducer_local env state (L_RESOLVE_EMERGENCY patientId) =
     mapPatient env patientId (\<lambda>p. p\<lparr>isEmergency := False, p_status := Waiting\<rparr>) state"
| "queueReducer_local env state (L_MARK_LATE_ARRIVAL patientId) =
     mapPatient env patientId (\<lambda>p. p\<lparr>isLateArrival := True\<rparr>) state"
| "queueReducer_local env state (L_ESCALATE patientId level) =
     mapPatient env patientId (\<lambda>p. p\<lparr>escalationLevel := level\<rparr>) state"
| "queueReducer_local env state (L_CALL_NEXT department) =
     (let departmentPatients =
            filter (\<lambda>p. p_department p = department \<and> p_status p = Waiting) (patients state)
      in case sortQueueByPriority (clock env) departmentPatients (Some department) of
           [] \<Rightarrow> state
         | nextPatient # _ \<Rightarrow>
             mapPatient env (p_id nextPatient) (\<lambda>p. p\<lparr>p_status := Called\<rparr>) state)"
| "queueReducer_local env state (L_START_CONSULTATION patientId) =
     mapPatient env patientId (\<lambda>p. p\<lparr>p_status := Consultation\<rparr>) state"
| "queueReducer_local env state (L_COMPLETE_CONSULTATION patientId diagnosis) =
     (case find (\<lambda>p. p_id p = patientId) (patients state) of
        None \<Rightarrow> state
      | Some patient \<Rightarrow>
          (mapPatient env patientId
             (\<lambda>p. p\<lparr> p_status := Completed, p_receiptId := Some (uuid env),
                      p_diagnosis := js_or diagnosis (p_diagnosis p),
                      consultationEndTime := Some (clock env) \<rparr>) state)
          \<lparr> receipts := receipts state @ [newReceipt env state patient diagnosis] \<rparr>)"
| "queueReducer_local env state (L_REMOVE_PATIENT patientId) =
     state\<lparr> patients := filter (\<lambda>p. p_id p \<noteq> patientId) (patients state),
            pendingSync := isOffline state \<rparr>"
| "queueReducer_local env state (L_TRANSFER_DEPARTMENT patientId newDepartment) =
     (let newCounter = tokenCounters state newDepartment + 1;
          newToken = generateTokenNumber newDepartment newCounter
      in (mapPatient env patientId
            (\<lambda>p. p\<lparr>p_department := newDepartment, p_tokenNumber := newToken\<rparr>) state)
         \<lparr> tokenCounters := (tokenCounters state)(newDepartment := newCounter) \<rparr>)"
| "queueReducer_local env state (L_CREATE_PRESCRIPTION prescription) =
     state\<lparr> prescriptions := prescriptions state @ [prescription],
            patients := map (\<lambda>p. if p_id p = rx_patientId prescription
                                   then p\<lparr> p_prescriptionId := Some (rx_id prescription),
                                           p_diagnosis := Some (rx_diagnosis prescription) \<rparr>
                                   else p) (patients state),
            pendingSync := isOffline state \<rparr>"
| "queueReducer_local env state (L_VERIFY_PRESCRIPTION prescriptionId) =
     mapPrescription prescriptionId (\<lambda>p. p\<lparr>doctorVerified := True, rx_status := Verified\<rparr>) state"
| "queueReducer_local env state (L_FORWARD_PRESCRIPTION prescriptionId) =
     mapPrescription prescriptionId
       (\<lambda>p. p\<lparr>rx_status := Forwarded, forwardedAt := Some (clock env)\<rparr>) state"
| "queueReducer_local env state (L_DISPENSE_MEDICINE prescriptionId) =
     (mapPrescription prescriptionId
        (\<lambda>p. p\<lparr>rx_status := Dispensed, dispensedAt := Some (clock env)\<rparr>) state)
     \<lparr> receipts := map (\<lambda>r. if r_prescriptionId r = Some prescriptionId
                             then r\<lparr>prescriptionStatus := Some Dispensed\<rparr> else r)
                      (receipts state) \<rparr>"
| "queueReducer_local env state (L_SCAN_RECEIPT receiptId) =
     state\<lparr> receipts :=
        map (\<lambda>r. if r_id r = receiptId
                 then (let newScanCount = scanCount r + 1
                       in r\<lparr> scanCount := newScanCount,
                             r_status := (if newScanCount > 1 then Fulfilled else r_status r) \<rparr>)
                 else r) (receipts state) \<rparr>"
| "queueReducer_local env state (L_SET_OFFLINE offline) =
     state\<lparr> isOffline := offline,
            pendingSync := (if offline then pendingSync state else False) \<rparr>"
| "queueReducer_local env state (L_LOAD_STATE s) = s"


text \<open>This scanReceipt returns the receipt it found before the dispatch.\<close>

definition scanReceipt_local :: "Env \<Rightarrow> string \<Rightarrow> QueueState \<Rightarrow> VisitReceipt option \<times> Toast list \<times> QueueState" where
  "scanReceipt_local env receiptId state =
     (case find (\<lambda>r. r_id r = receiptId) (receipts state) of
        None \<Rightarrow> (None, [], state)
      | Some receipt \<Rightarrow>
          (Some receipt,
           (if scanCount receipt \<ge> 1 then [Fraud_alert] else []),
           queueReducer_local env state (L_SCAN_RECEIPT receiptId)))"

section \<open>Notions of the specification\<close>






section \<open>Derived notions\<close>


text \<open>What one scan makes of a receipt.\<close>

definition scanned :: "VisitReceipt \<Rightarrow> VisitReceipt" where
  "scanned receipt =
     receipt\<lparr> scanCount := scanCount receipt + 1,
              r_status := (if scanCount receipt \<ge> 1 then Fulfilled else r_status receipt) \<rparr>"

text \<open>The waiting patients of a department, as callNext filters them.\<close>

definition waitingIn :: "Department \<Rightarrow> QueueState \<Rightarrow> Patient list" where
  "waitingIn department state =
     filter (\<lambda>p. p_department p = department \<and> p_status p = Waiting) (patients state)"

text \<open>A number below 1000 written with exactly three decimal digits.\<close>

definition threeDigits :: "nat \<Rightarrow> string" where
  "threeDigits n = [digitChar (n div 100 mod 10), digitChar (n div 10 mod 10), digitChar (n mod 10)]"

text \<open>The patient record a registration builds (\<open>newPatient\<close> in both providers).\<close>

definition registered :: "Env \<Rightarrow> Patient \<Rightarrow> QueueState \<Rightarrow> Patient" where
  "registered env patientData state =
     patientData\<lparr> p_id := uuid env,
       p_tokenNumber := generateTokenNumber (p_department patientData)
                          (tokenCounters state (p_department patientData) + 1),
       p_status := Waiting, arrivalTime := clock env, escalationLevel := 0,
       isEmergency := False, isLateArrival := False, trustScore := random_trust env \<rparr>"

text \<open>getPrescription of both providers: the first prescription with the identifier.\<close>

definition getPrescription :: "QueueState \<Rightarrow> string \<Rightarrow> Prescription option" where
  "getPrescription state prescriptionId = find (\<lambda>p. rx_id p = prescriptionId) (prescriptions state)"

text \<open>The patient record completeConsultation builds (\<open>updatedPatient\<close>).\<close>

definition completedPatient :: "Env \<Rightarrow> Patient \<Rightarrow> string option \<Rightarrow> Patient" where
  "completedPatient env patient diagnosis =
     patient\<lparr> p_status := Completed, p_receiptId := Some (uuid env),
              p_diagnosis := js_or diagnosis (p_diagnosis patient),
              consultationEndTime := Some (clock env) \<rparr>"

section \<open>Example records\<close>

definition noFlags :: VulnerabilityFlags where
  "noFlags = \<lparr> elderly = False, pregnant = False, disabled = False, chronicCondition = False \<rparr>"

definition patientOf :: "string \<Rightarrow> Department \<Rightarrow> SymptomSeverity \<Rightarrow> PatientStatus \<Rightarrow> bool \<Rightarrow> int \<Rightarrow> Patient" where
  "patientOf i d sev st em arr =
     \<lparr> p_id = i, p_tokenNumber = ''GM-001'', p_name = i, age = 30, p_department = d,
       symptom = ''fever'', symptomSeverity = sev, vulnerabilities = noFlags,
       p_visitType = Routine, p_status = st, arrivalTime = arr, escalationLevel = 0,
       isEmergency = em, isLateArrival = False, trustScore = 70, p_receiptId = None,
       consultationEndTime = None, p_diagnosis = None, p_prescriptionId = None \<rparr>"

definition exampleQueue :: "Patient list" where
  "exampleQueue =
     [ patientOf ''w1'' General_medicine Mild Waiting False 0,
       patientOf ''d1'' General_medicine Severe Completed False 0,
       patientOf ''s1'' General_medicine Mild Consultation False 0,
       patientOf ''w2'' General_medicine Severe Waiting False 5,
       patientOf ''e1'' Pediatrics Mild Emergency True 7,
       patientOf ''k1'' General_medicine Mild Called False 9,
       patientOf ''d2'' General_medicine Mild Completed False 0 ]"

text \<open>
  Two waiting patients whose order depends on the clock: the first has the wait bonus at
  its cap, the second, with the higher base score, arrives one hundred minutes later.
\<close>

definition clockA :: Patient where
  "clockA = patientOf ''a'' General_medicine Mild Waiting False 0"

definition clockB :: Patient where
  "clockB = patientOf ''b'' General_medicine Moderate Waiting False 6000000"






definition exampleEnv :: Env where
  "exampleEnv = \<lparr> clock = 60000, uuid = ''u1'', random_trust = 70, store_ok = True \<rparr>"

definition queueState :: QueueState where
  "queueState = initialState\<lparr>patients := exampleQueue\<rparr>"

definition counterSix :: QueueState where
  "counterSix = initialState\<lparr>tokenCounters := (\<lambda>d. 0)(General_medicine := 6)\<rparr>"

definition examplePayload :: Patient where
  "examplePayload = patientOf '''' General_medicine Severe Completed True 0"

text \<open>An environment one hundred minutes after \<open>clockB\<close> arrives.\<close>

definition laterEnv :: Env where
  "laterEnv = \<lparr> clock = 12000000, uuid = ''u2'', random_trust = 70, store_ok = True \<rparr>"

text \<open>
  A prescription created as pending and unverified, the state after creating it in the
  initial state (its identifier is then \<open>u1\<close>), and the state after dispensing it once.
\<close>

definition pendingRx :: Prescription where
  "pendingRx =
     \<lparr> rx_id = '''', rx_patientId = ''w1'', rx_patientName = ''w1'', rx_tokenNumber = ''GM-001'',
       rx_department = General_medicine, doctorDepartment = ''General Medicine'',
       rx_diagnosis = ''fever'', medicines = [], rx_status = Pending, aiGenerated = True,
       doctorVerified = False, rx_createdAt = 0, forwardedAt = None, dispensedAt = None \<rparr>"

definition rxState :: QueueState where
  "rxState = snd (snd (createPrescription exampleEnv pendingRx initialState))"

definition dispensedState :: QueueState where
  "dispensedState = snd (dispenseMedicine exampleEnv ''u1'' rxState)"

definition dispensedRx :: Prescription where
  "dispensedRx = pendingRx\<lparr> rx_id := ''u1'', rx_createdAt := 60000, rx_status := Dispensed,
                            dispensedAt := Some 60000 \<rparr>"

text \<open>An environment with a given clock reading and fresh identifier.\<close>

definition envAt :: "int \<Rightarrow> string \<Rightarrow> Env" where
  "envAt t u = \<lparr> clock = t, uuid = u, random_trust = 70, store_ok = True \<rparr>"

text \<open>The state after one registration in the initial state; the patient is \<open>u1\<close>.\<close>

definition regState :: QueueState where
  "regState = snd (snd (registerPatient exampleEnv examplePayload initialState))"

section \<open>Verified properties\<close>

subsection \<open>The comparator and the sort\<close>






lemma mset_array_insert: "mset (array_insert cmp x ys) = add_mset x (mset ys)"
  by (induction ys) auto

lemma mset_array_sort: "mset (array_sort cmp xs) = mset xs"
  by (induction xs) (simp_all add: array_sort_def mset_array_insert)







subsection \<open>Determinism of the sort\<close>

lemmas engine_defs = sortQueueByPriority_def array_sort_def compareQueue_def
     calculatePriorityScore_def ESCALATION_def SEVERITY_CAP_def VISIT_TYPE_def ageTerm_def vulnerabilityTerm_def
     waitBonus_def noFlags_def patientOf_def











subsection \<open>Receipt scans\<close>







lemma scanned_simps:
  "scanCount (scanned x) = scanCount x + 1"
  "r_status (scanned x) = (if scanCount x \<ge> 1 then Fulfilled else r_status x)"
  "r_id (scanned x) = r_id x"
  by (simp_all add: scanned_def)

lemma scanned_count: "scanCount ((scanned ^^ k) receipt) = scanCount receipt + int k"
  by (induction k) (simp_all add: scanned_simps)

lemma scanned_status:
  "r_status ((scanned ^^ k) receipt)
     = (if k \<ge> 1 \<and> scanCount receipt + int k > 1 then Fulfilled else r_status receipt)"
  by (induction k) (auto simp: scanned_simps scanned_count)





lemma exampleEnv_ok: "store_ok exampleEnv"
  by (simp add: exampleEnv_def)


text \<open>
  The scanReceipt of the second provider dispatches the same update but hands back the
  receipt as it was found, with the count before the scan.
\<close>

lemma scanReceipt_local_returns_found:
  assumes "find (\<lambda>r. r_id r = receiptId) (receipts state) = Some receipt"
  shows "fst (scanReceipt_local env receiptId state) = Some receipt"
  using assms by (simp add: scanReceipt_local_def)

subsection \<open>callNext\<close>

lemma mset_sortQueue_all: "mset (sortQueueByPriority now ps None) = mset ps"
  by (simp add: sortQueueByPriority_def Let_def mset_array_sort)

lemma set_sortQueue_all: "set (sortQueueByPriority now ps None) = set ps"
  using mset_sortQueue_all [of now ps] by (metis set_mset_mset)



lemma map_by_id:
  assumes "distinct (map p_id ps)" "n \<in> set ps"
  shows "map (\<lambda>p. if p_id p = p_id n then g p else p) ps = map (\<lambda>p. if p = n then g n else p) ps"
  using assms by (auto simp: distinct_map inj_on_def)





lemma queueState_facts:
  "\<forall>p\<in>set (patients queueState). validLevel (escalationLevel p)"
  "distinct (map p_id (patients queueState))"
  "waitingIn General_medicine queueState \<noteq> []"
  "waitingIn Orthopedics queueState = []"
  by (simp_all add: queueState_def initialState_def exampleQueue_def patientOf_def
        validLevel_def waitingIn_def)


lemma callNext_example:
  "map p_id (patients (snd (callNext exampleEnv General_medicine queueState)))
     = [''w2'', ''k1'', ''s1'', ''e1'', ''w1'', ''d1'', ''d2'']
   \<and> fst (callNext exampleEnv General_medicine queueState) = [Calling ''w2'' ''GM-001'']"
  by (simp add: callNext_def queueState_def initialState_def exampleQueue_def exampleEnv_def engine_defs)

subsection \<open>Tokens and counters\<close>

lemma digitChar_0: "digitChar 0 = CHR ''0''"
  by (simp add: digitChar_def)

lemma decString_small:
  "n < 10 \<Longrightarrow> decString n = [digitChar n]"
  "10 \<le> n \<Longrightarrow> n < 100 \<Longrightarrow> decString n = [digitChar (n div 10), digitChar (n mod 10)]"
  "100 \<le> n \<Longrightarrow> n < 1000 \<Longrightarrow>
     decString n = [digitChar (n div 100), digitChar (n div 10 mod 10), digitChar (n mod 10)]"
proof -
  show a: "\<And>n. n < 10 \<Longrightarrow> decString n = [digitChar n]"
    by (subst decString.simps) simp
  show b: "\<And>n. 10 \<le> n \<Longrightarrow> n < 100 \<Longrightarrow> decString n = [digitChar (n div 10), digitChar (n mod 10)]"
    by (subst decString.simps) (simp add: a)
  show "100 \<le> n \<Longrightarrow> n < 1000 \<Longrightarrow>
     decString n = [digitChar (n div 100), digitChar (n div 10 mod 10), digitChar (n mod 10)]"
    by (subst decString.simps) (simp add: b div_mult2_eq [symmetric])
qed

lemma padStart_threeDigits:
  assumes "n < 1000"
  shows "padStart 3 (CHR ''0'') (decString n) = threeDigits n"
proof -
  consider "n < 10" | "10 \<le> n" "n < 100" | "100 \<le> n" using assms by linarith
  then show ?thesis
  proof cases
    case 1
    then show ?thesis
      by (simp add: decString_small padStart_def threeDigits_def digitChar_0 numeral_3_eq_3)
  next
    case 2
    then show ?thesis
      by (simp add: decString_small padStart_def threeDigits_def digitChar_0 numeral_3_eq_3)
  next
    case 3
    then show ?thesis using assms
      by (simp add: decString_small padStart_def threeDigits_def)
  qed
qed

lemma token_three_digits:
  assumes "0 \<le> n" "n < 1000"
  shows "generateTokenNumber d n = prefixes d @ ''-'' @ threeDigits (nat n)"
  using assms padStart_threeDigits [of "nat n"]
  by (simp add: generateTokenNumber_def numberToString_def)

lemma prefixes_length: "length (prefixes d) = 2"
  by (cases d) (simp_all add: prefixes_def)


lemma registerPatient_ok:
  assumes "store_ok env"
  shows "registerPatient env patientData state =
           (Some (uuid env),
            [Patient_registered (generateTokenNumber (p_department patientData)
                                   (tokenCounters state (p_department patientData) + 1))],
            state\<lparr> tokenCounters := (tokenCounters state)
                       (p_department patientData := tokenCounters state (p_department patientData) + 1),
                   patients := sortQueueByPriority (clock env)
                                 (patients state @ [registered env patientData state]) None \<rparr>)"
  using assms by (simp add: registerPatient_def registered_def Let_def)

lemma register_local:
  "queueReducer_local env state (L_REGISTER_PATIENT patientData) =
     state\<lparr> patients := sortQueueByPriority (clock env)
                           (patients state @ [registered env patientData state]) None,
            tokenCounters := (tokenCounters state)
                       (p_department patientData := tokenCounters state (p_department patientData) + 1),
            pendingSync := isOffline state \<rparr>"
  by (simp add: registered_def Let_def)

lemma find_patient_id: "find (\<lambda>p. p_id p = i) ps = Some p \<Longrightarrow> p_id p = i"
  by (auto simp: find_Some_iff)

lemma transferDepartment_ok:
  assumes "find (\<lambda>p. p_id p = patientId) (patients state) = Some patient" "store_ok env"
  shows "transferDepartment env patientId newDepartment state =
           ([Patient_transferred (departmentName newDepartment)],
            state\<lparr> tokenCounters := (tokenCounters state)
                       (newDepartment := tokenCounters state newDepartment + 1),
                   patients := sortQueueByPriority (clock env)
                     (map (\<lambda>p. if p_id p = patientId
                               then patient\<lparr> p_department := newDepartment,
                                      p_tokenNumber := generateTokenNumber newDepartment
                                                         (tokenCounters state newDepartment + 1) \<rparr>
                               else p) (patients state)) None \<rparr>)"
  using assms find_patient_id [OF assms(1)]
  by (simp add: transferDepartment_def Let_def)

lemma transfer_local:
  "queueReducer_local env state (L_TRANSFER_DEPARTMENT patientId newDepartment) =
     state\<lparr> patients := sortQueueByPriority (clock env)
                     (map (\<lambda>p. if p_id p = patientId
                               then p\<lparr> p_department := newDepartment,
                                      p_tokenNumber := generateTokenNumber newDepartment
                                                         (tokenCounters state newDepartment + 1) \<rparr>
                               else p) (patients state)) None,
            pendingSync := isOffline state,
            tokenCounters := (tokenCounters state)
                       (newDepartment := tokenCounters state newDepartment + 1) \<rparr>"
  by (simp add: mapPatient_def Let_def)

text \<open>
  C7.  A registration the store accepts, in department \<open>d\<close> with counter \<open>c\<close>,
  announces and gives the new patient the token generateTokenNumber makes of \<open>d\<close> and
  \<open>c + 1\<close>, adds that one patient, and sets the counter of \<open>d\<close> to \<open>c + 1\<close>,
  leaving every other counter as it was; the reducer of the second provider does the same.
  A transfer of an existing patient into a department does the same with that department's
  counter and gives the patient the new token.  For \<open>0 \<le> c\<close> and \<open>c + 1 < 1000\<close> the
  token is the two-letter prefix, a hyphen, and \<open>c + 1\<close> in exactly three digits.  All
  counters of the initial state are zero.
\<close>

theorem token_issue_and_counter:
  assumes ok: "store_ok env"
  shows "(let d = p_department patientData; c = tokenCounters state d;
              token = generateTokenNumber d (c + 1);
              state' = snd (snd (registerPatient env patientData state));
              local' = queueReducer_local env state (L_REGISTER_PATIENT patientData)
          in fst (snd (registerPatient env patientData state)) = [Patient_registered token]
           \<and> p_tokenNumber (registered env patientData state) = token
           \<and> mset (patients state') = add_mset (registered env patientData state) (mset (patients state))
           \<and> tokenCounters state' = (tokenCounters state)(d := c + 1)
           \<and> mset (patients local') = add_mset (registered env patientData state) (mset (patients state))
           \<and> tokenCounters local' = (tokenCounters state)(d := c + 1)
           \<and> (0 \<le> c \<and> c + 1 < 1000 \<longrightarrow> token = prefixes d @ ''-'' @ threeDigits (nat (c + 1)))
           \<and> length (prefixes d) = 2)
       \<and> (find (\<lambda>p. p_id p = patientId) (patients state) = Some patient \<longrightarrow>
          (let c = tokenCounters state newDepartment;
              token = generateTokenNumber newDepartment (c + 1);
              state' = snd (transferDepartment env patientId newDepartment state);
              local' = queueReducer_local env state (L_TRANSFER_DEPARTMENT patientId newDepartment)
          in mset (patients state')
               = mset (map (\<lambda>p. if p_id p = patientId
                                 then patient\<lparr>p_department := newDepartment, p_tokenNumber := token\<rparr>
                                 else p) (patients state))
           \<and> tokenCounters state' = (tokenCounters state)(newDepartment := c + 1)
           \<and> mset (patients local')
               = mset (map (\<lambda>p. if p_id p = patientId
                                 then p\<lparr>p_department := newDepartment, p_tokenNumber := token\<rparr>
                                 else p) (patients state))
           \<and> tokenCounters local' = (tokenCounters state)(newDepartment := c + 1)
           \<and> (0 \<le> c \<and> c + 1 < 1000 \<longrightarrow>
                 token = prefixes newDepartment @ ''-'' @ threeDigits (nat (c + 1)))))
       \<and> tokenCounters initialState = (\<lambda>d. 0)"
proof (intro conjI impI)
  show "tokenCounters initialState = (\<lambda>d. 0)" by (simp add: initialState_def)
next
  show "let d = p_department patientData; c = tokenCounters state d;
              token = generateTokenNumber d (c + 1);
              state' = snd (snd (registerPatient env patientData state));
              local' = queueReducer_local env state (L_REGISTER_PATIENT patientData)
          in fst (snd (registerPatient env patientData state)) = [Patient_registered token]
           \<and> p_tokenNumber (registered env patientData state) = token
           \<and> mset (patients state') = add_mset (registered env patientData state) (mset (patients state))
           \<and> tokenCounters state' = (tokenCounters state)(d := c + 1)
           \<and> mset (patients local') = add_mset (registered env patientData state) (mset (patients state))
           \<and> tokenCounters local' = (tokenCounters state)(d := c + 1)
           \<and> (0 \<le> c \<and> c + 1 < 1000 \<longrightarrow> token = prefixes d @ ''-'' @ threeDigits (nat (c + 1)))
           \<and> length (prefixes d) = 2"
    unfolding Let_def registerPatient_ok [OF ok] register_local
    by (simp add: mset_sortQueue_all prefixes_length token_three_digits) (simp add: registered_def)
next
  assume found: "find (\<lambda>p. p_id p = patientId) (patients state) = Some patient"
  show "let c = tokenCounters state newDepartment;
              token = generateTokenNumber newDepartment (c + 1);
              state' = snd (transferDepartment env patientId newDepartment state);
              local' = queueReducer_local env state (L_TRANSFER_DEPARTMENT patientId newDepartment)
          in mset (patients state')
               = mset (map (\<lambda>p. if p_id p = patientId
                                 then patient\<lparr>p_department := newDepartment, p_tokenNumber := token\<rparr>
                                 else p) (patients state))
           \<and> tokenCounters state' = (tokenCounters state)(newDepartment := c + 1)
           \<and> mset (patients local')
               = mset (map (\<lambda>p. if p_id p = patientId
                                 then p\<lparr>p_department := newDepartment, p_tokenNumber := token\<rparr>
                                 else p) (patients state))
           \<and> tokenCounters local' = (tokenCounters state)(newDepartment := c + 1)
           \<and> (0 \<le> c \<and> c + 1 < 1000 \<longrightarrow>
                 token = prefixes newDepartment @ ''-'' @ threeDigits (nat (c + 1)))"
    unfolding Let_def transferDepartment_ok [OF found ok] transfer_local
    by (simp add: mset_sortQueue_all token_three_digits)
qed


lemma token_examples:
  "generateTokenNumber General_medicine 7 = ''GM-007''"
  "generateTokenNumber Pediatrics 42 = ''PD-042''"
  "generateTokenNumber Orthopedics 1000 = ''OR-1000''"
  by (simp_all add: generateTokenNumber_def numberToString_def padStart_def prefixes_def
        decString.simps digitChar_def numeral_2_eq_2)

theorem token_issue_and_counter_witness:
  "store_ok exampleEnv
   \<and> fst (snd (registerPatient exampleEnv examplePayload counterSix)) = [Patient_registered ''GM-007'']
   \<and> tokenCounters (snd (snd (registerPatient exampleEnv examplePayload counterSix)))
        = (\<lambda>d. 0)(General_medicine := 7)
   \<and> find (\<lambda>p. p_id p = ''w1'') (patients queueState) = Some (patientOf ''w1'' General_medicine Mild Waiting False 0)
   \<and> tokenCounters (snd (transferDepartment exampleEnv ''w1'' Pediatrics queueState))
        = (\<lambda>d. 0)(Pediatrics := 1)"
proof -
  have f: "find (\<lambda>p. p_id p = ''w1'') (patients queueState)
             = Some (patientOf ''w1'' General_medicine Mild Waiting False 0)"
    by (simp add: queueState_def initialState_def exampleQueue_def patientOf_def)
  have c: "tokenCounters counterSix (p_department examplePayload) = 6"
    "p_department examplePayload = General_medicine"
    "tokenCounters counterSix = (\<lambda>d. 0)(General_medicine := 6)"
    "tokenCounters queueState = (\<lambda>d. 0)"
    by (simp_all add: counterSix_def examplePayload_def patientOf_def initialState_def queueState_def)
  have t: "prefixes General_medicine @ ''-'' @ threeDigits 7 = ''GM-007''"
    by (simp add: prefixes_def threeDigits_def digitChar_def)
  show ?thesis
    using token_issue_and_counter [OF exampleEnv_ok, of examplePayload counterSix]
      token_issue_and_counter [OF exampleEnv_ok, of _ queueState "''w1''" _ Pediatrics] f t
    by (simp add: Let_def c exampleEnv_ok)
qed

subsection \<open>Unknown identifiers\<close>






text \<open>
  The other patient cases of the second provider's reducer have no such test: for an
  unknown identifier they leave every record, the prescriptions, the receipts and the
  counters as they were, and sort the patient list again by the current clock.
\<close>

lemma reducer_local_unknown_patient:
  assumes "patientId \<notin> set (map p_id (patients state))"
  shows "mset (patients (mapPatient env patientId change state)) = mset (patients state)
       \<and> prescriptions (mapPatient env patientId change state) = prescriptions state
       \<and> receipts (mapPatient env patientId change state) = receipts state
       \<and> tokenCounters (mapPatient env patientId change state) = tokenCounters state"
proof -
  have "map (\<lambda>p. if p_id p = patientId then change p else p) (patients state) = patients state"
    using assms by (intro map_idI) auto
  then show ?thesis by (simp add: mapPatient_def mset_sortQueue_all)
qed

lemma reducer_local_unknown_resorts:
  "patients (queueReducer_local laterEnv (initialState\<lparr>patients := [clockA, clockB]\<rparr>)
              (L_UPDATE_STATUS ''zz'' Called)) = [clockB, clockA]"
  by (simp add: mapPatient_def laterEnv_def initialState_def clockA_def clockB_def engine_defs)

subsection \<open>Prescription workflow\<close>

lemma find_replace_rx:
  "find (\<lambda>p. rx_id p = i) ps = Some r \<Longrightarrow> rx_id u = i \<Longrightarrow>
   find (\<lambda>p. rx_id p = i) (map (\<lambda>p. if rx_id p = rx_id u then u else p) ps) = Some u"
  by (induction ps) (auto split: if_splits)

lemma find_map_rx:
  "find (\<lambda>p. rx_id p = i) ps = Some r \<Longrightarrow> (\<And>x. rx_id (f x) = rx_id x) \<Longrightarrow>
   find (\<lambda>p. rx_id p = i) (map (\<lambda>p. if rx_id p = i then f p else p) ps) = Some (f r)"
  by (induction ps) (auto split: if_splits)

lemma find_rx_id: "find (\<lambda>p. rx_id p = i) ps = Some r \<Longrightarrow> rx_id r = i"
  by (auto simp: find_Some_iff)

lemma updatePrescriptionWith_found:
  assumes "getPrescription state i = Some rx" "store_ok env" "rx_id (change rx) = rx_id rx"
  shows "fst (updatePrescriptionWith env i change done failed state) = [done]"
    and "getPrescription (snd (updatePrescriptionWith env i change done failed state)) i
           = Some (change rx)"
    and "patients (snd (updatePrescriptionWith env i change done failed state)) = patients state"
    and "receipts (snd (updatePrescriptionWith env i change done failed state)) = receipts state"
proof -
  have f: "find (\<lambda>p. rx_id p = i) (prescriptions state) = Some rx"
    using assms(1) by (simp add: getPrescription_def)
  have i: "rx_id (change rx) = i" using find_rx_id [OF f] assms(3) by simp
  show "fst (updatePrescriptionWith env i change done failed state) = [done]"
    using f assms(2) by (simp add: updatePrescriptionWith_def)
  show "getPrescription (snd (updatePrescriptionWith env i change done failed state)) i
           = Some (change rx)"
    using f assms(2) find_replace_rx [OF f i]
    by (simp add: updatePrescriptionWith_def getPrescription_def)
  show "patients (snd (updatePrescriptionWith env i change done failed state)) = patients state"
    "receipts (snd (updatePrescriptionWith env i change done failed state)) = receipts state"
    using f assms(2) by (simp_all add: updatePrescriptionWith_def)
qed

lemma mapPrescription_found:
  assumes "getPrescription state i = Some rx" "\<And>x. rx_id (change x) = rx_id x"
  shows "getPrescription (mapPrescription i change state) i = Some (change rx)"
  using assms find_map_rx [of i "prescriptions state" rx change]
  by (simp add: mapPrescription_def getPrescription_def)

lemma update_receipts_keep_prescriptions:
  "prescriptions (foldl (\<lambda>s r. s\<lparr>receipts := map (\<lambda>x. if r_id x = r_id r then r else x) (receipts s)\<rparr>) s rs)
     = prescriptions s"
  by (induction rs arbitrary: s) simp_all

lemma dispenseMedicine_found:
  assumes "getPrescription state i = Some rx" "store_ok env"
  shows "fst (dispenseMedicine env i state) = [Medicines_dispensed]"
    and "getPrescription (snd (dispenseMedicine env i state)) i
           = Some (rx\<lparr>rx_status := Dispensed, dispensedAt := Some (clock env)\<rparr>)"
proof -
  have f: "find (\<lambda>p. rx_id p = i) (prescriptions state) = Some rx"
    using assms(1) by (simp add: getPrescription_def)
  have i: "rx_id (rx\<lparr>rx_status := Dispensed, dispensedAt := Some (clock env)\<rparr>) = i"
    using find_rx_id [OF f] by simp
  show "fst (dispenseMedicine env i state) = [Medicines_dispensed]"
    using f assms(2) by (simp add: dispenseMedicine_def Let_def)
  show "getPrescription (snd (dispenseMedicine env i state)) i
           = Some (rx\<lparr>rx_status := Dispensed, dispensedAt := Some (clock env)\<rparr>)"
    using f assms(2) find_replace_rx [OF f i] find_rx_id [OF f]
    by (simp add: dispenseMedicine_def Let_def getPrescription_def
          update_receipts_keep_prescriptions)
qed

lemma dispense_local_found:
  assumes "getPrescription state i = Some rx"
  shows "getPrescription (queueReducer_local env state (L_DISPENSE_MEDICINE i)) i
           = Some (rx\<lparr>rx_status := Dispensed, dispensedAt := Some (clock env)\<rparr>)"
  using mapPrescription_found [OF assms, of "\<lambda>p. p\<lparr>rx_status := Dispensed, dispensedAt := Some (clock env)\<rparr>"]
  by (simp add: getPrescription_def mapPrescription_def)


lemmas rx_example_defs = rxState_def createPrescription_def exampleEnv_def laterEnv_def
  initialState_def pendingRx_def forwardPrescription_def updatePrescriptionWith_def
  dispenseMedicine_def dispensedState_def dispensedRx_def getPrescription_def

text \<open>
  C3, as stated, fails.  A prescription created as pending and unverified can be forwarded
  at once: it is then forwarded with doctorVerified false.  It can also be dispensed at
  once: it is then dispensed, unverified and never forwarded.
\<close>

theorem forward_without_verify:
  "map (\<lambda>p. (rx_status p, doctorVerified p)) (prescriptions rxState) = [(Pending, False)]
   \<and> map (\<lambda>p. (rx_status p, doctorVerified p))
         (prescriptions (snd (forwardPrescription exampleEnv ''u1'' rxState))) = [(Forwarded, False)]
   \<and> map (\<lambda>p. (rx_status p, doctorVerified p, forwardedAt p))
         (prescriptions (snd (dispenseMedicine exampleEnv ''u1'' rxState)))
       = [(Dispensed, False, None)]"
  by (simp add: rx_example_defs Let_def)

text \<open>
  C3, amended.  On an existing prescription, when the store accepts the write,
  verifyPrescription sets the status to verified and doctorVerified to true,
  forwardPrescription sets the status to forwarded and stamps forwardedAt, and
  dispenseMedicine sets the status to dispensed and stamps dispensedAt, each whatever the
  status was and changing no other field; the reducer of the second provider does the
  same.  So verify, then forward, then dispense leaves the prescription dispensed with
  doctorVerified true and both stamps set.
\<close>

theorem prescription_transitions:
  assumes found: "getPrescription state i = Some rx"
    and ok: "store_ok e1" "store_ok e2" "store_ok e3"
  shows "getPrescription (snd (verifyPrescription e1 i state)) i
           = Some (rx\<lparr>doctorVerified := True, rx_status := Verified\<rparr>)
       \<and> getPrescription (snd (forwardPrescription e1 i state)) i
           = Some (rx\<lparr>rx_status := Forwarded, forwardedAt := Some (clock e1)\<rparr>)
       \<and> getPrescription (snd (dispenseMedicine e1 i state)) i
           = Some (rx\<lparr>rx_status := Dispensed, dispensedAt := Some (clock e1)\<rparr>)
       \<and> getPrescription (queueReducer_local e1 state (L_VERIFY_PRESCRIPTION i)) i
           = Some (rx\<lparr>doctorVerified := True, rx_status := Verified\<rparr>)
       \<and> getPrescription (queueReducer_local e1 state (L_FORWARD_PRESCRIPTION i)) i
           = Some (rx\<lparr>rx_status := Forwarded, forwardedAt := Some (clock e1)\<rparr>)
       \<and> getPrescription (queueReducer_local e1 state (L_DISPENSE_MEDICINE i)) i
           = Some (rx\<lparr>rx_status := Dispensed, dispensedAt := Some (clock e1)\<rparr>)
       \<and> getPrescription
            (snd (dispenseMedicine e3 i
               (snd (forwardPrescription e2 i (snd (verifyPrescription e1 i state)))))) i
           = Some (rx\<lparr> doctorVerified := True, rx_status := Dispensed,
                      forwardedAt := Some (clock e2), dispensedAt := Some (clock e3) \<rparr>)"
proof -
  let ?v = "rx\<lparr>doctorVerified := True, rx_status := Verified\<rparr>"
  let ?f = "?v\<lparr>rx_status := Forwarded, forwardedAt := Some (clock e2)\<rparr>"
  have v: "getPrescription (snd (verifyPrescription e1 i state)) i = Some ?v"
    unfolding verifyPrescription_def
    by (rule updatePrescriptionWith_found(2) [OF found ok(1)]) simp
  have f: "getPrescription (snd (forwardPrescription e1 i state)) i
             = Some (rx\<lparr>rx_status := Forwarded, forwardedAt := Some (clock e1)\<rparr>)"
    unfolding forwardPrescription_def
    by (rule updatePrescriptionWith_found(2) [OF found ok(1)]) simp
  have vf: "getPrescription (snd (forwardPrescription e2 i (snd (verifyPrescription e1 i state)))) i
              = Some ?f"
    unfolding forwardPrescription_def
    by (rule updatePrescriptionWith_found(2) [OF v ok(2)]) simp
  have vfd: "getPrescription
            (snd (dispenseMedicine e3 i
               (snd (forwardPrescription e2 i (snd (verifyPrescription e1 i state)))))) i
           = Some (?f\<lparr>rx_status := Dispensed, dispensedAt := Some (clock e3)\<rparr>)"
    by (rule dispenseMedicine_found(2) [OF vf ok(3)])
  have lv: "getPrescription (queueReducer_local e1 state (L_VERIFY_PRESCRIPTION i)) i = Some ?v"
    using mapPrescription_found [OF found, of "\<lambda>p. p\<lparr>doctorVerified := True, rx_status := Verified\<rparr>"]
    by simp
  have lf: "getPrescription (queueReducer_local e1 state (L_FORWARD_PRESCRIPTION i)) i
           = Some (rx\<lparr>rx_status := Forwarded, forwardedAt := Some (clock e1)\<rparr>)"
    using mapPrescription_found [OF found, of "\<lambda>p. p\<lparr>rx_status := Forwarded, forwardedAt := Some (clock e1)\<rparr>"]
    by simp
  show ?thesis
    using v f vfd lv lf dispenseMedicine_found(2) [OF found ok(1)] dispense_local_found [OF found, of e1]
    by simp
qed

lemma rxState_found: "getPrescription rxState ''u1'' = Some (pendingRx\<lparr>rx_id := ''u1'', rx_createdAt := 60000\<rparr>)"
  by (simp add: rx_example_defs)

theorem prescription_transitions_witness:
  "getPrescription rxState ''u1'' = Some (pendingRx\<lparr>rx_id := ''u1'', rx_createdAt := 60000\<rparr>)
   \<and> store_ok exampleEnv \<and> store_ok laterEnv
   \<and> map_option (\<lambda>p. (rx_status p, doctorVerified p))
        (getPrescription (snd (verifyPrescription exampleEnv ''u1'' rxState)) ''u1'')
       = Some (Verified, True)
   \<and> map_option (\<lambda>p. (rx_status p, doctorVerified p, forwardedAt p, dispensedAt p))
        (getPrescription
           (snd (dispenseMedicine laterEnv ''u1''
              (snd (forwardPrescription exampleEnv ''u1''
                 (snd (verifyPrescription exampleEnv ''u1'' rxState)))))) ''u1'')
       = Some (Dispensed, True, Some 60000, Some 12000000)"
proof -
  have l: "store_ok laterEnv" by (simp add: laterEnv_def)
  show ?thesis
    using prescription_transitions [OF rxState_found exampleEnv_ok exampleEnv_ok l]
      rxState_found exampleEnv_ok l
    by (simp add: exampleEnv_def laterEnv_def)
qed

text \<open>
  C4, as stated, fails.  A second dispenseMedicine on the same prescription reports
  success again and replaces dispensedAt by the time of the second call.
\<close>

theorem second_dispense_restamps:
  "fst (dispenseMedicine laterEnv ''u1'' (snd (dispenseMedicine exampleEnv ''u1'' rxState)))
     = [Medicines_dispensed]
   \<and> map (\<lambda>p. (rx_status p, dispensedAt p))
         (prescriptions (snd (dispenseMedicine exampleEnv ''u1'' rxState)))
       = [(Dispensed, Some 60000)]
   \<and> map (\<lambda>p. (rx_status p, dispensedAt p))
         (prescriptions (snd (dispenseMedicine laterEnv ''u1''
                                (snd (dispenseMedicine exampleEnv ''u1'' rxState)))))
       = [(Dispensed, Some 12000000)]"
  by (simp add: rx_example_defs Let_def)

text \<open>
  C4, amended.  dispenseMedicine on an existing prescription that is already dispensed,
  when the store accepts the write, reports success, keeps the status dispensed and every
  other field, and sets dispensedAt to the time of this call; the reducer of the second
  provider does the same.  The already-dispensed report comes from the dispensing
  screen: handleSearch refuses a dispensed prescription with that error.
\<close>

theorem redispense_overwrites:
  assumes found: "getPrescription state i = Some rx"
    and status: "rx_status rx = Dispensed"
    and ok: "store_ok env"
  shows "fst (dispenseMedicine env i state) = [Medicines_dispensed]
       \<and> getPrescription (snd (dispenseMedicine env i state)) i
           = Some (rx\<lparr>dispensedAt := Some (clock env)\<rparr>)
       \<and> getPrescription (queueReducer_local env state (L_DISPENSE_MEDICINE i)) i
           = Some (rx\<lparr>dispensedAt := Some (clock env)\<rparr>)
       \<and> (\<forall>token. find (\<lambda>p. rx_tokenNumber p = token) (prescriptions state) = Some rx \<longrightarrow>
             handleSearch state token = Inl Already_dispensed)"
proof -
  have e: "rx\<lparr>rx_status := Dispensed, dispensedAt := Some (clock env)\<rparr>
             = rx\<lparr>dispensedAt := Some (clock env)\<rparr>"
    using status by simp
  show ?thesis
    using dispenseMedicine_found [OF found ok] dispense_local_found [OF found, of env] status
    by (simp add: e handleSearch_def)
qed

lemma dispensedState_found: "getPrescription dispensedState ''u1'' = Some dispensedRx"
  by (simp add: rx_example_defs Let_def)

theorem redispense_overwrites_witness:
  "getPrescription dispensedState ''u1'' = Some dispensedRx
   \<and> rx_status dispensedRx = Dispensed
   \<and> store_ok laterEnv
   \<and> fst (dispenseMedicine laterEnv ''u1'' dispensedState) = [Medicines_dispensed]
   \<and> getPrescription (snd (dispenseMedicine laterEnv ''u1'' dispensedState)) ''u1''
       = Some (dispensedRx\<lparr>dispensedAt := Some 12000000\<rparr>)
   \<and> handleSearch dispensedState ''GM-001'' = Inl Already_dispensed"
proof -
  have l: "store_ok laterEnv" and c: "clock laterEnv = 12000000" by (simp_all add: laterEnv_def)
  have s: "rx_status dispensedRx = Dispensed" by (simp add: dispensedRx_def)
  have t: "find (\<lambda>p. rx_tokenNumber p = ''GM-001'') (prescriptions dispensedState) = Some dispensedRx"
    by (simp add: rx_example_defs Let_def)
  show ?thesis
    using redispense_overwrites [OF dispensedState_found s l] dispensedState_found s l t
    by (simp add: c)
qed

subsection \<open>Completing a consultation\<close>

lemma updatePatientWith_found:
  assumes "find (\<lambda>p. p_id p = patientId) (patients state) = Some patient"
    and "p_id (change patient) = p_id patient"
  shows "store_ok env \<Longrightarrow> updatePatientWith env patientId change done failed state =
           (done, state\<lparr>patients := sortQueueByPriority (clock env)
                    (map (\<lambda>p. if p_id p = patientId then change patient else p) (patients state)) None\<rparr>)"
    and "\<not> store_ok env \<Longrightarrow> updatePatientWith env patientId change done failed state = ([failed], state)"
  using assms find_patient_id [OF assms(1)]
  by (simp_all add: updatePatientWith_def)

lemma completeConsultation_found:
  assumes "find (\<lambda>p. p_id p = patientId) (patients state) = Some patient" "store_ok env"
  shows "completeConsultation env patientId diagnosis state =
           ([Consultation_completed],
            state\<lparr> patients := sortQueueByPriority (clock env)
                      (map (\<lambda>p. if p_id p = patientId then completedPatient env patient diagnosis else p)
                         (patients state)) None,
                   receipts := receipts state @ [newReceipt env state patient diagnosis] \<rparr>)"
  unfolding completedPatient_def using assms find_patient_id [OF assms(1)]
  by (simp add: completeConsultation_def Let_def)

lemma find_patient_mem: "find (\<lambda>p. p_id p = i) ps = Some p \<Longrightarrow> p \<in> set ps"
  by (auto simp: find_Some_iff)

text \<open>
  C5, amended.  In a state with distinct patient identifiers, completeConsultation on an
  existing patient, whatever the patient's status and when the store accepts the writes,
  sets the status to completed, stamps the consultation-end time, stores the diagnosis
  given if it is a non-empty text and keeps the earlier one otherwise, links the new
  receipt, changes no other patient, and appends exactly one receipt, with scanCount 0
  and status active, for that patient; the reducer of the second provider does the same.
\<close>

theorem completeConsultation_mints_receipt:
  assumes found: "find (\<lambda>p. p_id p = patientId) (patients state) = Some patient"
    and ok: "store_ok env"
    and ids: "distinct (map p_id (patients state))"
  shows "(let state' = snd (completeConsultation env patientId diagnosis state);
              local' = queueReducer_local env state (L_COMPLETE_CONSULTATION patientId diagnosis);
              receipt = newReceipt env state patient diagnosis;
              updated = patient\<lparr> p_status := Completed, p_receiptId := Some (uuid env),
                          p_diagnosis := js_or diagnosis (p_diagnosis patient),
                          consultationEndTime := Some (clock env) \<rparr>
          in fst (completeConsultation env patientId diagnosis state) = [Consultation_completed]
           \<and> receipts state' = receipts state @ [receipt]
           \<and> r_id receipt = uuid env \<and> r_patientId receipt = patientId
           \<and> scanCount receipt = 0 \<and> r_status receipt = Active
           \<and> mset (patients state')
                = mset (map (\<lambda>p. if p = patient then updated else p) (patients state))
           \<and> prescriptions state' = prescriptions state
           \<and> tokenCounters state' = tokenCounters state
           \<and> receipts local' = receipts state @ [receipt]
           \<and> mset (patients local')
                = mset (map (\<lambda>p. if p = patient then updated else p) (patients state)))"
proof -
  have mem: "patient \<in> set (patients state)" using find_patient_mem [OF found] .
  have pid: "p_id patient = patientId" using find_patient_id [OF found] .
  have m1: "map (\<lambda>p. if p_id p = patientId then completedPatient env patient diagnosis else p)
              (patients state)
            = map (\<lambda>p. if p = patient then completedPatient env patient diagnosis else p)
                (patients state)"
    using map_by_id [OF ids mem, of "\<lambda>p. completedPatient env patient diagnosis"] pid by simp
  have m2: "map (\<lambda>p. if p_id p = patientId then completedPatient env p diagnosis else p)
              (patients state)
            = map (\<lambda>p. if p = patient then completedPatient env patient diagnosis else p)
                (patients state)"
    using map_by_id [OF ids mem, of "\<lambda>p. completedPatient env p diagnosis"] pid by simp
  have l: "queueReducer_local env state (L_COMPLETE_CONSULTATION patientId diagnosis) =
             state\<lparr> patients := sortQueueByPriority (clock env)
                      (map (\<lambda>p. if p_id p = patientId then completedPatient env p diagnosis else p)
                         (patients state)) None,
                    pendingSync := isOffline state,
                    receipts := receipts state @ [newReceipt env state patient diagnosis] \<rparr>"
    unfolding completedPatient_def using found by (simp add: mapPatient_def)
  show ?thesis
    unfolding Let_def completeConsultation_found [OF found ok] l m1 m2
    unfolding completedPatient_def
    by (simp add: mset_sortQueue_all pid) (simp add: newReceipt_def pid)
qed


lemmas state_example_defs = regState_def registerPatient_def completeConsultation_def envAt_def
  exampleEnv_def examplePayload_def initialState_def newReceipt_def js_or_def
  generateTokenNumber_def numberToString_def padStart_def prefixes_def decString.simps
  digitChar_def departmentName_def

text \<open>
  C5, as stated, fails.  Starting from the initial state, register one patient and
  complete the consultation twice: the patient then has two active receipts.
\<close>

theorem two_active_receipts:
  "map (\<lambda>p. (p_id p, p_status p)) (patients regState) = [(''u1'', Waiting)]
   \<and> map (\<lambda>r. (r_id r, r_patientId r, r_status r, scanCount r))
         (receipts (snd (completeConsultation (envAt 180000 ''r2'') ''u1'' None
                      (snd (completeConsultation (envAt 120000 ''r1'') ''u1'' None regState)))))
       = [(''r1'', ''u1'', Active, 0), (''r2'', ''u1'', Active, 0)]"
  by (simp add: state_example_defs engine_defs Let_def)

lemma regState_found:
  "find (\<lambda>p. p_id p = ''u1'') (patients regState) = Some (registered exampleEnv examplePayload initialState)"
  "distinct (map p_id (patients regState))"
  by (simp_all add: state_example_defs registered_def engine_defs Let_def)

theorem completeConsultation_mints_receipt_witness:
  "find (\<lambda>p. p_id p = ''u1'') (patients regState) = Some (registered exampleEnv examplePayload initialState)
   \<and> store_ok (envAt 120000 ''r1'')
   \<and> distinct (map p_id (patients regState))
   \<and> fst (completeConsultation (envAt 120000 ''r1'') ''u1'' (Some ''flu'') regState) = [Consultation_completed]
   \<and> map (\<lambda>r. (r_id r, r_patientId r, r_status r, scanCount r, r_diagnosis r))
         (receipts (snd (completeConsultation (envAt 120000 ''r1'') ''u1'' (Some ''flu'') regState)))
       = [(''r1'', ''u1'', Active, 0, Some ''flu'')]"
proof -
  have ok: "store_ok (envAt 120000 ''r1'')" and u: "uuid (envAt 120000 ''r1'') = ''r1''"
    by (simp_all add: envAt_def)
  have r: "receipts regState = []" by (simp add: state_example_defs Let_def)
  have d: "r_diagnosis (newReceipt (envAt 120000 ''r1'') regState
             (registered exampleEnv examplePayload initialState) (Some ''flu'')) = Some ''flu''"
    by (simp add: newReceipt_def js_or_def)
  show ?thesis
    using completeConsultation_mints_receipt [OF regState_found(1) ok regState_found(2), of "Some ''flu''"]
      regState_found ok
    by (simp add: Let_def r u d)
qed

subsection \<open>Escalation\<close>

text \<open>
  C8, as stated, fails.  escalate with the level 5, outside the declared range, reports
  the escalation and stores 5 when the store accepts the write; the reducer of the second
  provider stores it as well.
\<close>

theorem escalate_out_of_range_stored:
  "\<not> validLevel 5
   \<and> fst (escalate exampleEnv ''w1'' 5 queueState) = [Priority_escalated 5]
   \<and> map escalationLevel (filter (\<lambda>p. p_id p = ''w1'')
        (patients (snd (escalate exampleEnv ''w1'' 5 queueState)))) = [5]
   \<and> map escalationLevel (filter (\<lambda>p. p_id p = ''w1'')
        (patients (queueReducer_local exampleEnv queueState (L_ESCALATE ''w1'' 5)))) = [5]"
  by (simp add: validLevel_def escalate_def updatePatientWith_def mapPatient_def queueState_def
        initialState_def exampleQueue_def exampleEnv_def engine_defs)

text \<open>
  C8, amended.  escalate on an existing patient stores the level it is given, without a
  test of its own: when the store accepts the write it reports the escalation and the
  patients afterwards are the patients before with that level written into the patient's
  record, so levels in the declared range stay in the declared range when the level given
  is in it; when the store refuses the write it reports the failure and returns the state
  as it was.  The reducer of the second provider writes the level in the same way.
\<close>

theorem escalate_stores_level:
  assumes found: "find (\<lambda>p. p_id p = patientId) (patients state) = Some patient"
  shows "(store_ok env \<longrightarrow>
            fst (escalate env patientId level state) = [Priority_escalated level]
          \<and> mset (patients (snd (escalate env patientId level state)))
               = mset (map (\<lambda>p. if p_id p = patientId then patient\<lparr>escalationLevel := level\<rparr> else p)
                         (patients state))
          \<and> (validLevel level \<and> list_all (\<lambda>p. validLevel (escalationLevel p)) (patients state)
               \<longrightarrow> list_all (\<lambda>p. validLevel (escalationLevel p))
                     (patients (snd (escalate env patientId level state)))))
       \<and> (\<not> store_ok env \<longrightarrow>
            escalate env patientId level state = ([Failed ''escalate priority''], state))
       \<and> mset (patients (queueReducer_local env state (L_ESCALATE patientId level)))
            = mset (map (\<lambda>p. if p_id p = patientId then p\<lparr>escalationLevel := level\<rparr> else p)
                      (patients state))"
proof (intro conjI impI)
  assume ok: "store_ok env"
  have e: "escalate env patientId level state =
             ([Priority_escalated level],
              state\<lparr>patients := sortQueueByPriority (clock env)
                 (map (\<lambda>p. if p_id p = patientId then patient\<lparr>escalationLevel := level\<rparr> else p)
                    (patients state)) None\<rparr>)"
    unfolding escalate_def
    by (rule updatePatientWith_found(1) [OF found _ ok]) simp
  show "fst (escalate env patientId level state) = [Priority_escalated level]"
    by (simp add: e)
  show m: "mset (patients (snd (escalate env patientId level state)))
               = mset (map (\<lambda>p. if p_id p = patientId then patient\<lparr>escalationLevel := level\<rparr> else p)
                         (patients state))"
    by (simp add: e mset_sortQueue_all)
  assume v: "validLevel level \<and> list_all (\<lambda>p. validLevel (escalationLevel p)) (patients state)"
  have "set (patients (snd (escalate env patientId level state)))
          = set (map (\<lambda>p. if p_id p = patientId then patient\<lparr>escalationLevel := level\<rparr> else p)
                         (patients state))"
    using m by (rule mset_eq_setD)
  then show "list_all (\<lambda>p. validLevel (escalationLevel p))
                     (patients (snd (escalate env patientId level state)))"
    using v by (auto simp: list_all_iff)
next
  assume "\<not> store_ok env"
  then show "escalate env patientId level state = ([Failed ''escalate priority''], state)"
    unfolding escalate_def
    by (intro updatePatientWith_found(2) [OF found]) simp_all
next
  show "mset (patients (queueReducer_local env state (L_ESCALATE patientId level)))
            = mset (map (\<lambda>p. if p_id p = patientId then p\<lparr>escalationLevel := level\<rparr> else p)
                      (patients state))"
    by (simp add: mapPatient_def mset_sortQueue_all)
qed

lemma queueState_w1:
  "find (\<lambda>p. p_id p = ''w1'') (patients queueState)
     = Some (patientOf ''w1'' General_medicine Mild Waiting False 0)"
  by (simp add: queueState_def initialState_def exampleQueue_def patientOf_def)

theorem escalate_stores_level_witness:
  "find (\<lambda>p. p_id p = ''w1'') (patients queueState)
     = Some (patientOf ''w1'' General_medicine Mild Waiting False 0)
   \<and> store_ok exampleEnv \<and> validLevel 2
   \<and> list_all (\<lambda>p. validLevel (escalationLevel p)) (patients queueState)
   \<and> fst (escalate exampleEnv ''w1'' 2 queueState) = [Priority_escalated 2]
   \<and> list_all (\<lambda>p. validLevel (escalationLevel p))
        (patients (snd (escalate exampleEnv ''w1'' 2 queueState)))
   \<and> escalate (exampleEnv\<lparr>store_ok := False\<rparr>) ''w1'' 2 queueState
        = ([Failed ''escalate priority''], queueState)"
proof -
  have v: "validLevel 2" by (simp add: validLevel_def)
  have l: "list_all (\<lambda>p. validLevel (escalationLevel p)) (patients queueState)"
    using queueState_facts(1) by (simp add: list_all_iff)
  show ?thesis
    using escalate_stores_level [OF queueState_w1, of exampleEnv 2]
      escalate_stores_level [OF queueState_w1, of "exampleEnv\<lparr>store_ok := False\<rparr>" 2]
      queueState_w1 exampleEnv_ok v l
    by simp
qed

end
